theory Spec2Isabelle
  imports Complex_Main "HOL-Library.Sublist"
begin

section \<open>JavaScript values\<close>

text \<open>
  The catalog is written in JavaScript, so the data it handles is untyped: a raw API
  record, a transformed product and a record of the fallback file are all plain values.
  They are modelled by one datatype of values, with the coercions of the language
  (\<open>Boolean\<close>, \<open>String\<close>, \<open>parseInt\<close>, \<open>parseFloat\<close>, \<open>ToNumber\<close>) written out.

  Numbers are the exact decimal value (a rational) or one of the three special values;
  the rounding of a decimal literal to binary64 is not modelled, and neither is the
  sign of zero (the program never divides). Strings are byte strings: \<open>trim\<close> and
  \<open>toLowerCase\<close> act on the ASCII range. Objects are JSON data or object literals
  of the program: they have no conversion methods of their own, so \<open>String\<close> of an
  object is the text \<open>[object Object]\<close>.
\<close>

datatype jsnum = NaN | Fin rat | PosInf | NegInf

datatype jsval =
    JUndefined
  | JNull
  | JBool bool
  | JNum jsnum
  | JStr string
  | JArr "jsval list"
  | JObj "(string \<times> jsval) list"

text \<open>
  Errors are values. The program only ever reads \<open>error.message\<close>, so an error is
  its message; the constructors are the message templates of the source.
\<close>

datatype error =
    ApiServiceUnavailable     \<comment> \<open>loadProducts: window.ApiService is missing\<close>
  | CannotConnect             \<comment> \<open>loadProducts: testConnection returned false\<close>
  | NoPublicProducts          \<comment> \<open>loadProducts: fetchProducts gave no array or an empty one\<close>
  | NoValidProducts           \<comment> \<open>loadProducts: the filter left nothing\<close>
  | HttpError nat string      \<comment> \<open>ApiService: Erro HTTP: status - statusText\<close>
  | NoResultsArray            \<comment> \<open>fetchProducts: the envelope has no results array\<close>
  | LoadFailed error          \<comment> \<open>fetchProducts: Falha ao carregar produtos: message\<close>
  | FileHttpError nat         \<comment> \<open>loadProductsFromJSON: HTTP error! status: status\<close>
  | InvalidFileData           \<comment> \<open>loadProductsFromJSON: validateProductsData failed\<close>
  | NullAccess string         \<comment> \<open>TypeError: property read on null or undefined\<close>
  | NotAFunction string       \<comment> \<open>TypeError: method called on a value that lacks it\<close>
  | Runtime string            \<comment> \<open>network failure or JSON syntax error, text from the engine\<close>

subsection \<open>Truthiness, typeof, property access\<close>

fun num_truthy :: "jsnum \<Rightarrow> bool" where
  "num_truthy NaN = False"
| "num_truthy (Fin r) = (r \<noteq> 0)"
| "num_truthy PosInf = True"
| "num_truthy NegInf = True"

fun truthy :: "jsval \<Rightarrow> bool" where
  "truthy JUndefined = False"
| "truthy JNull = False"
| "truthy (JBool b) = b"
| "truthy (JNum n) = num_truthy n"
| "truthy (JStr s) = (s \<noteq> [])"
| "truthy (JArr xs) = True"
| "truthy (JObj kvs) = True"

definition js_or :: "jsval \<Rightarrow> jsval \<Rightarrow> jsval" where
  \<comment> \<open>\<open>a || b\<close> on values that are already computed\<close>
  "js_or a b = (if truthy a then a else b)"

fun is_number :: "jsval \<Rightarrow> bool" where
  "is_number (JNum n) = True"
| "is_number v = False"

fun is_string :: "jsval \<Rightarrow> bool" where
  "is_string (JStr s) = True"
| "is_string v = False"

fun isArray :: "jsval \<Rightarrow> bool" where
  "isArray (JArr xs) = True"
| "isArray v = False"

fun elems :: "jsval \<Rightarrow> jsval list" where
  "elems (JArr xs) = xs"
| "elems v = []"

text \<open>
  \<open>field v k\<close> is \<open>v.k\<close> for a value that is neither null nor undefined, and for the
  data field names the program reads (id, title, subtitle, description, gallery, price,
  promotionalPrice, Public, public, Rating, order, url, results, products): none of
  them is a property of a primitive or of an array, so only objects answer. A key given
  twice in a JSON object keeps its last value. \<open>getprop\<close> is the unguarded read, which
  throws on null and undefined.
\<close>

fun field :: "jsval \<Rightarrow> string \<Rightarrow> jsval" where
  "field (JObj kvs) k = (case map_of (rev kvs) k of None \<Rightarrow> JUndefined | Some v \<Rightarrow> v)"
| "field v k = JUndefined"

fun getprop :: "jsval \<Rightarrow> string \<Rightarrow> error + jsval" where
  "getprop JUndefined k = Inl (NullAccess k)"
| "getprop JNull k = Inl (NullAccess k)"
| "getprop v k = Inr (field v k)"

fun str_method :: "string \<Rightarrow> jsval \<Rightarrow> error + string" where
  \<comment> \<open>the receiver of a String method such as \<open>v.toLowerCase()\<close>\<close>
  "str_method m (JStr s) = Inr s"
| "str_method m JUndefined = Inl (NullAccess m)"
| "str_method m JNull = Inl (NullAccess m)"
| "str_method m v = Inl (NotAFunction m)"

fun bindE :: "error + 'a \<Rightarrow> ('a \<Rightarrow> error + 'b) \<Rightarrow> error + 'b" where
  "bindE (Inl e) f = Inl e"
| "bindE (Inr x) f = f x"

fun mapE :: "('a \<Rightarrow> error + 'b) \<Rightarrow> 'a list \<Rightarrow> error + 'b list" where
  "mapE f [] = Inr []"
| "mapE f (x # xs) = bindE (f x) (\<lambda>y. bindE (mapE f xs) (\<lambda>ys. Inr (y # ys)))"

fun filterE :: "('a \<Rightarrow> error + bool) \<Rightarrow> 'a list \<Rightarrow> error + 'a list" where
  "filterE f [] = Inr []"
| "filterE f (x # xs) =
     bindE (f x) (\<lambda>b. bindE (filterE f xs) (\<lambda>ys. Inr (if b then x # ys else ys)))"

subsection \<open>Strings\<close>

definition is_space :: "char \<Rightarrow> bool" where
  \<comment> \<open>space, tab, line feed, vertical tab, form feed, carriage return\<close>
  "is_space c = (c \<in> set [CHR '' '', CHR 0x09, CHR 0x0A, CHR 0x0B, CHR 0x0C, CHR 0x0D])"

definition is_digit :: "char \<Rightarrow> bool" where
  "is_digit c = (c \<in> set ''0123456789'')"

definition trim_start :: "string \<Rightarrow> string" where
  "trim_start s = dropWhile is_space s"

definition trim :: "string \<Rightarrow> string" where
  "trim s = rev (dropWhile is_space (rev (dropWhile is_space s)))"

definition lower_char :: "char \<Rightarrow> char" where
  "lower_char c =
     (case map_of (zip ''ABCDEFGHIJKLMNOPQRSTUVWXYZ'' ''abcdefghijklmnopqrstuvwxyz'') c of
        None \<Rightarrow> c | Some d \<Rightarrow> d)"

definition toLowerCase :: "string \<Rightarrow> string" where
  "toLowerCase s = map lower_char s"

fun str_includes :: "string \<Rightarrow> string \<Rightarrow> bool" where
  \<comment> \<open>\<open>s.includes(t)\<close>: t occurs in s at some position\<close>
  "str_includes [] t = (t = [])"
| "str_includes (c # cs) t = (prefix t (c # cs) \<or> str_includes cs t)"

fun replace_first :: "char \<Rightarrow> char \<Rightarrow> string \<Rightarrow> string" where
  \<comment> \<open>\<open>s.replace(a, b)\<close> with a string pattern: the first occurrence only\<close>
  "replace_first a b [] = []"
| "replace_first a b (c # cs) = (if c = a then b # cs else c # replace_first a b cs)"

fun intercalate :: "string \<Rightarrow> string list \<Rightarrow> string" where
  "intercalate sep [] = []"
| "intercalate sep [x] = x"
| "intercalate sep (x # y # ys) = x @ sep @ intercalate sep (y # ys)"

subsection \<open>Numbers to strings\<close>

definition digit_char :: "nat \<Rightarrow> char" where
  "digit_char d = ''0123456789'' ! (d mod 10)"

function digits_of_nat :: "nat \<Rightarrow> string" where
  "digits_of_nat n =
     (if n < 10 then [digit_char n] else digits_of_nat (n div 10) @ [digit_char (n mod 10)])"
  by pat_completeness auto
termination
  by (relation "measure id") auto

fun frac_digits :: "nat \<Rightarrow> rat \<Rightarrow> string" where
  \<comment> \<open>the decimal digits of a fraction in [0,1), at most \<open>fuel\<close> of them\<close>
  "frac_digits 0 r = []"
| "frac_digits (Suc fuel) r =
     (if r = 0 then []
      else let d = nat \<lfloor>r * 10\<rfloor>
           in digit_char d # frac_digits fuel (r * 10 - of_nat d))"

definition rat_to_string :: "rat \<Rightarrow> string" where
  \<comment> \<open>plain decimal notation; the exponent notation that Number::toString uses
      from 1e21 up and below 1e-6 is not modelled\<close>
  "rat_to_string r =
     (let a = \<bar>r\<bar>; n = nat \<lfloor>a\<rfloor>; f = a - of_nat n
      in (if r < 0 then ''-'' else []) @ digits_of_nat n
         @ (if f = 0 then [] else ''.'' @ frac_digits 20 f))"

fun num_to_string :: "jsnum \<Rightarrow> string" where
  "num_to_string NaN = ''NaN''"
| "num_to_string (Fin r) = rat_to_string r"
| "num_to_string PosInf = ''Infinity''"
| "num_to_string NegInf = ''-Infinity''"

fun to_string :: "jsval \<Rightarrow> string" where
  \<comment> \<open>\<open>String(v)\<close>; an array joins its elements with commas, null and undefined
      elements giving the empty string\<close>
  "to_string JUndefined = ''undefined''"
| "to_string JNull = ''null''"
| "to_string (JBool b) = (if b then ''true'' else ''false'')"
| "to_string (JNum n) = num_to_string n"
| "to_string (JStr s) = s"
| "to_string (JArr xs) =
     intercalate '',''
       (map (\<lambda>x. if x = JNull \<or> x = JUndefined then [] else to_string x) xs)"
| "to_string (JObj kvs) = ''[object Object]''"

subsection \<open>Strings to numbers\<close>

definition digit_table :: "(char \<times> nat) list" where
  "digit_table =
     zip ''0123456789abcdefABCDEF''
       [0, 1, 2, 3, 4, 5, 6, 7, 8, 9, 10, 11, 12, 13, 14, 15, 10, 11, 12, 13, 14, 15]"

definition digit_val :: "char \<Rightarrow> nat" where
  "digit_val c = (case map_of digit_table c of None \<Rightarrow> 0 | Some d \<Rightarrow> d)"

definition is_radix_digit :: "nat \<Rightarrow> char \<Rightarrow> bool" where
  "is_radix_digit radix c = (case map_of digit_table c of None \<Rightarrow> False | Some d \<Rightarrow> d < radix)"

definition nat_of_digits :: "nat \<Rightarrow> string \<Rightarrow> nat" where
  "nat_of_digits radix ds = foldl (\<lambda>a c. radix * a + digit_val c) 0 ds"

definition scale10 :: "rat \<Rightarrow> int \<Rightarrow> rat" where
  "scale10 m e = (if 0 \<le> e then m * 10 ^ nat e else m / 10 ^ nat (- e))"

fun num_neg :: "jsnum \<Rightarrow> jsnum" where
  "num_neg NaN = NaN"
| "num_neg (Fin r) = Fin (- r)"
| "num_neg PosInf = NegInf"
| "num_neg NegInf = PosInf"

fun strip_sign :: "string \<Rightarrow> bool \<times> string" where
  "strip_sign [] = (False, [])"
| "strip_sign (c # cs) =
     (if c = CHR ''-'' then (True, cs) else if c = CHR ''+'' then (False, cs)
      else (False, c # cs))"

fun parse_exponent :: "string \<Rightarrow> int \<times> string" where
  \<comment> \<open>an exponent part at the head of the string, taken only when it is complete\<close>
  "parse_exponent [] = (0, [])"
| "parse_exponent (c # cs) =
     (if c = CHR ''e'' \<or> c = CHR ''E'' then
        (let (neg, r) = strip_sign cs; ds = takeWhile is_digit r
         in if ds = [] then (0, c # cs)
            else (if neg then - int (nat_of_digits 10 ds) else int (nat_of_digits 10 ds),
                  dropWhile is_digit r))
      else (0, c # cs))"

fun fraction_part :: "string \<Rightarrow> string" where
  \<comment> \<open>the digits after a decimal point at the head of the string\<close>
  "fraction_part [] = []"
| "fraction_part (c # cs) = (if c = CHR ''.'' then takeWhile is_digit cs else [])"

fun after_fraction :: "string \<Rightarrow> string" where
  "after_fraction [] = []"
| "after_fraction (c # cs) = (if c = CHR ''.'' then dropWhile is_digit cs else c # cs)"

definition parse_decimal :: "string \<Rightarrow> (jsnum \<times> string) option" where
  \<comment> \<open>the longest prefix that is an unsigned decimal literal (Infinity, or digits
      with an optional fraction and exponent): its value and the rest of the string\<close>
  "parse_decimal s =
     (if prefix ''Infinity'' s then Some (PosInf, drop 8 s)
      else let ip = takeWhile is_digit s; r1 = dropWhile is_digit s; fd = fraction_part r1
           in if ip = [] \<and> fd = [] then None
              else let (e, r3) = parse_exponent (after_fraction r1)
                   in Some (Fin (scale10 (of_nat (nat_of_digits 10 (ip @ fd)))
                                   (e - int (length fd))), r3))"

definition parse_signed_decimal :: "string \<Rightarrow> (jsnum \<times> string) option" where
  "parse_signed_decimal s =
     (let (neg, u) = strip_sign s
      in case parse_decimal u of
           None \<Rightarrow> None
         | Some (n, r) \<Rightarrow> Some (if neg then num_neg n else n, r))"

definition parseFloat_str :: "string \<Rightarrow> jsnum" where
  \<comment> \<open>leading white space is skipped, the longest numeric prefix is read, what
      follows it is ignored\<close>
  "parseFloat_str s =
     (case parse_signed_decimal (trim_start s) of None \<Rightarrow> NaN | Some (n, r) \<Rightarrow> n)"

definition parseInt_str :: "string \<Rightarrow> jsnum" where
  \<comment> \<open>no radix argument: base 10, or base 16 after a 0x prefix\<close>
  "parseInt_str s =
     (let (neg, u) = strip_sign (trim_start s);
          hex = (prefix ''0x'' u \<or> prefix ''0X'' u);
          radix = (if hex then 16 else 10);
          ds = takeWhile (is_radix_digit radix) (if hex then drop 2 u else u)
      in if ds = [] then NaN
         else Fin (if neg then - of_nat (nat_of_digits radix ds)
                   else of_nat (nat_of_digits radix ds)))"

definition radix_literal :: "string \<Rightarrow> nat option" where
  \<comment> \<open>the base of a 0x, 0o or 0b literal\<close>
  "radix_literal s =
     (if prefix ''0x'' s \<or> prefix ''0X'' s then Some 16
      else if prefix ''0o'' s \<or> prefix ''0O'' s then Some 8
      else if prefix ''0b'' s \<or> prefix ''0B'' s then Some 2
      else None)"

definition str_to_number :: "string \<Rightarrow> jsnum" where
  \<comment> \<open>ToNumber on a string: the whole trimmed string must be a numeric literal\<close>
  "str_to_number s =
     (let t = trim s
      in if t = [] then Fin 0
         else case radix_literal t of
           Some radix \<Rightarrow>
             (let ds = drop 2 t
              in if ds \<noteq> [] \<and> list_all (is_radix_digit radix) ds
                 then Fin (of_nat (nat_of_digits radix ds)) else NaN)
         | None \<Rightarrow>
             (case parse_signed_decimal t of
                None \<Rightarrow> NaN
              | Some (n, r) \<Rightarrow> if r = [] then n else NaN))"

fun to_number :: "jsval \<Rightarrow> jsnum" where
  "to_number JUndefined = NaN"
| "to_number JNull = Fin 0"
| "to_number (JBool b) = Fin (if b then 1 else 0)"
| "to_number (JNum n) = n"
| "to_number (JStr s) = str_to_number s"
| "to_number (JArr xs) = str_to_number (to_string (JArr xs))"
| "to_number (JObj kvs) = str_to_number (to_string (JObj kvs))"

definition parseInt :: "jsval \<Rightarrow> jsnum" where
  "parseInt v = parseInt_str (to_string v)"

definition parseFloat :: "jsval \<Rightarrow> jsnum" where
  "parseFloat v = parseFloat_str (to_string v)"

subsection \<open>Arithmetic and comparison\<close>

fun isNaN :: "jsnum \<Rightarrow> bool" where
  "isNaN NaN = True"
| "isNaN n = False"

fun num_gt0 :: "jsnum \<Rightarrow> bool" where
  \<comment> \<open>\<open>n > 0\<close>\<close>
  "num_gt0 (Fin r) = (0 < r)"
| "num_gt0 PosInf = True"
| "num_gt0 n = False"

fun num_le0 :: "jsnum \<Rightarrow> bool" where
  \<comment> \<open>\<open>n <= 0\<close>\<close>
  "num_le0 (Fin r) = (r \<le> 0)"
| "num_le0 NegInf = True"
| "num_le0 n = False"

fun num_ge0 :: "jsnum \<Rightarrow> bool" where
  \<comment> \<open>\<open>n >= 0\<close>\<close>
  "num_ge0 (Fin r) = (0 \<le> r)"
| "num_ge0 PosInf = True"
| "num_ge0 n = False"

fun num_sub :: "jsnum \<Rightarrow> jsnum \<Rightarrow> jsnum" where
  \<comment> \<open>\<open>a - b\<close>\<close>
  "num_sub NaN b = NaN"
| "num_sub a NaN = NaN"
| "num_sub (Fin a) (Fin b) = Fin (a - b)"
| "num_sub (Fin a) PosInf = NegInf"
| "num_sub (Fin a) NegInf = PosInf"
| "num_sub PosInf PosInf = NaN"
| "num_sub PosInf b = PosInf"
| "num_sub NegInf NegInf = NaN"
| "num_sub NegInf b = NegInf"

definition js_gt0 :: "jsval \<Rightarrow> bool" where
  \<comment> \<open>\<open>v > 0\<close> on any value: the operand is converted to a number\<close>
  "js_gt0 v = num_gt0 (to_number v)"

section \<open>The API service (class ApiService)\<close>

text \<open>
  The remote endpoint is an input of the model: what a \<open>fetch\<close> call gives back is
  either a network failure or a response with its status and the outcome of
  \<open>response.json()\<close> (the parsed document, or the text of the syntax error).
  \<open>response.ok\<close> is the status being in the range 200 to 299. The address of a
  request and its query parameters (the filters of fetchProducts, the id of
  fetchProductById) act only through the response, so the functions take the outcome of
  their request as their argument. Each method with a try block is given as the body of
  the block, which may throw, followed by what its catch block makes of the error.
\<close>

record response =
  status :: nat
  statusText :: string
  body :: "string + jsval"

datatype fetch_outcome = NetworkFailure string | Response response

definition ok :: "response \<Rightarrow> bool" where
  "ok r = (200 \<le> status r \<and> status r \<le> 299)"

fun numericPrice :: "jsval \<Rightarrow> jsnum" where
  \<comment> \<open>the constant numericPrice of parsePrice: a string has its first comma replaced
      by a point before it is parsed\<close>
  "numericPrice (JStr s) = parseFloat_str (replace_first CHR '','' CHR ''.'' s)"
| "numericPrice v = parseFloat v"

definition parsePrice :: "jsval \<Rightarrow> jsval" where
  "parsePrice price =
     (if \<not> truthy price \<or> price = JStr ''0.00'' then JNull
      else if isNaN (numericPrice price) \<or> num_le0 (numericPrice price) then JNull
      else JNum (numericPrice price))"

fun str_length :: "jsval \<Rightarrow> nat" where
  \<comment> \<open>\<open>v.length\<close>, read only behind a \<open>typeof v === 'string'\<close> test\<close>
  "str_length (JStr s) = length s"
| "str_length v = 0"

definition isValidProduct :: "jsval \<Rightarrow> bool" where
  "isValidProduct product =
     (truthy product \<and>
      is_number (field product ''id'') \<and>
      js_gt0 (field product ''id'') \<and>
      is_string (field product ''title'') \<and>
      0 < str_length (field product ''title'') \<and>
      is_string (field product ''description'') \<and>
      0 < str_length (field product ''description'') \<and>
      isArray (field product ''gallery'') \<and>
      is_number (field product ''price'') \<and>
      js_gt0 (field product ''price'') \<and>
      field product ''public'' = JBool True)"

definition gallery_url :: "jsval \<Rightarrow> error + jsval" where
  \<comment> \<open>\<open>image => image.url || image\<close>\<close>
  "gallery_url img = bindE (getprop img ''url'') (\<lambda>u. Inr (js_or u img))"

definition transformProduct_try :: "jsval \<Rightarrow> error + jsval" where
  \<comment> \<open>the body of the try block of transformProduct\<close>
  "transformProduct_try apiProduct =
     bindE (getprop apiProduct ''gallery'') (\<lambda>g.
     bindE (if isArray g then mapE gallery_url (elems g) else Inr []) (\<lambda>gallery.
       let transformedProduct = JObj
             [(''id'', js_or (JNum (parseInt (field apiProduct ''id''))) (JNum (Fin 0))),
              (''title'', JStr (trim (to_string (js_or (field apiProduct ''title'') (JStr []))))),
              (''subtitle'',
                 if truthy (field apiProduct ''subtitle'')
                 then JStr (trim (to_string (field apiProduct ''subtitle''))) else JNull),
              (''description'',
                 JStr (trim (to_string (js_or (field apiProduct ''description'') (JStr []))))),
              (''gallery'', JArr gallery),
              (''price'', parsePrice (field apiProduct ''price'')),
              (''promotionalPrice'', parsePrice (field apiProduct ''promotionalPrice'')),
              (''public'', JBool (truthy (field apiProduct ''Public''))),
              (''rating'', js_or (JNum (parseInt (field apiProduct ''Rating''))) JNull),
              (''order'', js_or (JNum (parseFloat (field apiProduct ''order''))) (JNum (Fin 0)))]
       in if \<not> isValidProduct transformedProduct then Inr JNull
          else Inr transformedProduct))"

definition transformProduct :: "jsval \<Rightarrow> jsval" where
  \<comment> \<open>the catch block logs the error and returns null\<close>
  "transformProduct apiProduct =
     (case transformProduct_try apiProduct of Inl e \<Rightarrow> JNull | Inr v \<Rightarrow> v)"

definition fetchProducts_try :: "fetch_outcome \<Rightarrow> error + jsval list" where
  \<comment> \<open>the body of the try block of fetchProducts, given what the request came back with\<close>
  "fetchProducts_try out =
     (case out of
        NetworkFailure m \<Rightarrow> Inl (Runtime m)
      | Response r \<Rightarrow>
          if \<not> ok r then Inl (HttpError (status r) (statusText r))
          else (case body r of
                  Inl m \<Rightarrow> Inl (Runtime m)
                | Inr data \<Rightarrow>
                    bindE (getprop data ''results'') (\<lambda>results.
                      if \<not> truthy results \<or> \<not> isArray results then Inl NoResultsArray
                      else Inr (map transformProduct (elems results)))))"

definition fetchProducts :: "fetch_outcome \<Rightarrow> error + jsval list" where
  \<comment> \<open>the catch block throws a new error that wraps the message\<close>
  "fetchProducts out =
     (case fetchProducts_try out of Inl e \<Rightarrow> Inl (LoadFailed e) | Inr ps \<Rightarrow> Inr ps)"

definition fetchProductById_try :: "fetch_outcome \<Rightarrow> error + jsval" where
  \<comment> \<open>the body of the try block of fetchProductById\<close>
  "fetchProductById_try out =
     (case out of
        NetworkFailure m \<Rightarrow> Inl (Runtime m)
      | Response r \<Rightarrow>
          if \<not> ok r then
            (if status r = 404 then Inr JNull
             else Inl (HttpError (status r) (statusText r)))
          else (case body r of
                  Inl m \<Rightarrow> Inl (Runtime m)
                | Inr apiProduct \<Rightarrow>
                    (let transformedProduct = transformProduct apiProduct
                     in if \<not> truthy transformedProduct
                           \<or> \<not> truthy (field transformedProduct ''public'')
                        then Inr JNull else Inr transformedProduct)))"

definition fetchProductById :: "fetch_outcome \<Rightarrow> error + jsval" where
  \<comment> \<open>the catch block logs the error and returns null\<close>
  "fetchProductById out =
     (case fetchProductById_try out of Inl e \<Rightarrow> Inr JNull | Inr v \<Rightarrow> Inr v)"

definition testConnection :: "fetch_outcome \<Rightarrow> bool" where
  "testConnection out = (case out of NetworkFailure m \<Rightarrow> False | Response r \<Rightarrow> ok r)"

section \<open>The catalog controller (class ProductCatalog)\<close>

text \<open>
  The controller's fields are a record. What it does to the page and which services
  it calls is kept as a trace of events in the state, in the order of the calls; the
  markup itself is not modelled, and drawing the page is taken not to throw. The
  environment of one load holds what each of its requests comes back with. A load is
  modelled from its start to its end: what happens between two loads is a later call.
\<close>

datatype event =
    ShowLoading
  | CallTestConnection
  | CallFetchProducts
  | FetchFile                    \<comment> \<open>fetch('./data/products.json')\<close>
  | RenderProducts "jsval list"  \<comment> \<open>renderProducts, with the filtered list it draws\<close>
  | UpdateResultsInfo
  | ShowApiWarning error
  | ShowError error error        \<comment> \<open>the API error and the error of the local file\<close>
  | ShowNoResults

record state =
  products :: "jsval list"
  filteredProducts :: "jsval list"
  isLoading :: bool
  currentSearchTerm :: string
  trace :: "event list"

record env =
  apiService :: bool             \<comment> \<open>window.ApiService is set\<close>
  connection :: fetch_outcome    \<comment> \<open>the request of testConnection\<close>
  api :: fetch_outcome           \<comment> \<open>the request of fetchProducts\<close>
  localFile :: fetch_outcome     \<comment> \<open>the request for the local file\<close>

definition emit :: "event \<Rightarrow> state \<Rightarrow> state" where
  "emit e st = st\<lparr>trace := trace st @ [e]\<rparr>"

definition renderProducts :: "state \<Rightarrow> state" where
  "renderProducts st = emit (RenderProducts (filteredProducts st)) st"

definition updateResultsInfo :: "state \<Rightarrow> state" where
  "updateResultsInfo st = emit UpdateResultsInfo st"

definition isDisplayable :: "jsval \<Rightarrow> bool" where
  \<comment> \<open>the filter of loadProducts\<close>
  "isDisplayable product =
     (truthy product \<and>
      field product ''public'' = JBool True \<and>
      truthy (field product ''title'') \<and>
      truthy (field product ''description'') \<and>
      js_gt0 (field product ''price''))"

definition order_key :: "jsval \<Rightarrow> jsnum" where
  \<comment> \<open>\<open>a.order || 0\<close>, as the subtraction reads it\<close>
  "order_key a = to_number (js_or (field a ''order'') (JNum (Fin 0)))"

definition compareOrder :: "jsval \<Rightarrow> jsval \<Rightarrow> jsnum" where
  \<comment> \<open>\<open>(a, b) => (a.order || 0) - (b.order || 0)\<close>\<close>
  "compareOrder a b = num_sub (order_key a) (order_key b)"

text \<open>
  \<open>Array.prototype.sort\<close> is stable, and with a consistent comparator it orders the
  array by it; a comparator result that is not above zero (zero, below zero or NaN)
  leaves two elements in their order. It is modelled by an insertion sort: each
  element goes in front of the sorted rest, behind the elements it compares above.
\<close>

fun insort_by :: "('a \<Rightarrow> 'a \<Rightarrow> jsnum) \<Rightarrow> 'a \<Rightarrow> 'a list \<Rightarrow> 'a list" where
  "insort_by cmp x [] = [x]"
| "insort_by cmp x (y # ys) =
     (if num_gt0 (cmp x y) then y # insort_by cmp x ys else x # y # ys)"

definition js_sort :: "('a \<Rightarrow> 'a \<Rightarrow> jsnum) \<Rightarrow> 'a list \<Rightarrow> 'a list" where
  "js_sort cmp xs = foldr (insort_by cmp) xs []"

definition validateProductsData :: "jsval \<Rightarrow> bool" where
  "validateProductsData data =
     (if \<not> truthy data \<or> \<not> isArray (field data ''products'') then False
      else list_all (\<lambda>product.
             truthy product \<and>
             field product ''id'' \<noteq> JUndefined \<and>
             is_string (field product ''title'') \<and>
             is_string (field product ''description'') \<and>
             isArray (field product ''gallery'') \<and>
             is_number (field product ''price'') \<and>
             num_ge0 (to_number (field product ''price'')))
           (elems (field data ''products'')))"

definition readProductsFile :: "fetch_outcome \<Rightarrow> error + jsval list" where
  \<comment> \<open>the try block of loadProductsFromJSON up to the validated \<open>data.products\<close>\<close>
  "readProductsFile out =
     (case out of
        NetworkFailure m \<Rightarrow> Inl (Runtime m)
      | Response r \<Rightarrow>
          if \<not> ok r then Inl (FileHttpError (status r))
          else (case body r of
                  Inl m \<Rightarrow> Inl (Runtime m)
                | Inr data \<Rightarrow>
                    if \<not> validateProductsData data then Inl InvalidFileData
                    else Inr (elems (field data ''products''))))"

definition loadProductsFromJSON :: "env \<Rightarrow> error \<Rightarrow> state \<Rightarrow> state" where
  "loadProductsFromJSON ev apiError st =
     (let st1 = emit FetchFile st
      in case readProductsFile (localFile ev) of
           Inr ps \<Rightarrow>
             emit (ShowApiWarning apiError)
               (updateResultsInfo (renderProducts (st1\<lparr>products := ps, filteredProducts := ps\<rparr>)))
         | Inl jsonError \<Rightarrow> emit (ShowError apiError jsonError) st1)"

definition loadProducts_try :: "env \<Rightarrow> state \<Rightarrow> error option \<times> state" where
  \<comment> \<open>the try block of loadProducts: the error thrown, if any, and the state reached\<close>
  "loadProducts_try ev st =
     (if \<not> apiService ev then (Some ApiServiceUnavailable, st)
      else let st1 = emit CallTestConnection st
           in if \<not> testConnection (connection ev) then (Some CannotConnect, st1)
              else let st2 = emit CallFetchProducts st1
                   in case fetchProducts (api ev) of
                        Inl e \<Rightarrow> (Some e, st2)
                      | Inr apiProducts \<Rightarrow>
                          if apiProducts = [] then (Some NoPublicProducts, st2)
                          else let validProducts = filter isDisplayable apiProducts
                               in if validProducts = [] then (Some NoValidProducts, st2)
                                  else let sorted = js_sort compareOrder validProducts
                                       in (None,
                                           updateResultsInfo (renderProducts
                                             (st2\<lparr>products := sorted,
                                                   filteredProducts := sorted\<rparr>))))"

definition loadProducts :: "env \<Rightarrow> state \<Rightarrow> state" where
  "loadProducts ev st =
     (if isLoading st then st
      else let st1 = emit ShowLoading (st\<lparr>isLoading := True\<rparr>);
               (thrown, st2) = loadProducts_try ev st1;
               st3 = (case thrown of
                        None \<Rightarrow> st2
                      | Some error \<Rightarrow> loadProductsFromJSON ev error st2)
           in st3\<lparr>isLoading := False\<rparr>)"

definition matchesSearch :: "string \<Rightarrow> jsval \<Rightarrow> error + bool" where
  \<comment> \<open>the filter of handleSearch, with the short circuit of \<open>||\<close> and \<open>&&\<close>\<close>
  "matchesSearch term product =
     bindE (getprop product ''title'') (\<lambda>title.
     bindE (str_method ''toLowerCase'' title) (\<lambda>t.
       if str_includes (toLowerCase t) term then Inr True
       else bindE (if truthy (field product ''subtitle'')
                   then bindE (str_method ''toLowerCase'' (field product ''subtitle''))
                          (\<lambda>s. Inr (str_includes (toLowerCase s) term))
                   else Inr False) (\<lambda>in_subtitle.
              if in_subtitle then Inr True
              else bindE (str_method ''toLowerCase'' (field product ''description''))
                     (\<lambda>d. Inr (str_includes (toLowerCase d) term)))))"

definition afterFilter :: "state \<Rightarrow> state" where
  \<comment> \<open>the end of handleSearch: render, count, and the no-results message\<close>
  "afterFilter st =
     (let st1 = updateResultsInfo (renderProducts st)
      in if filteredProducts st1 = [] \<and> currentSearchTerm st1 \<noteq> []
         then emit ShowNoResults st1 else st1)"

definition handleSearch :: "string \<Rightarrow> state \<Rightarrow> error option \<times> state" where
  \<comment> \<open>the error thrown, if any, and the state reached\<close>
  "handleSearch searchTerm st =
     (let st1 = st\<lparr>currentSearchTerm := toLowerCase (trim searchTerm)\<rparr>
      in if currentSearchTerm st1 = []
         then (None, afterFilter (st1\<lparr>filteredProducts := products st1\<rparr>))
         else case filterE (matchesSearch (currentSearchTerm st1)) (products st1) of
                Inl e \<Rightarrow> (Some e, st1)
              | Inr found \<Rightarrow> (None, afterFilter (st1\<lparr>filteredProducts := found\<rparr>)))"

definition initial :: state where
  \<comment> \<open>the fields as the constructor sets them\<close>
  "initial = \<lparr>products = [], filteredProducts = [], isLoading = False,
              currentSearchTerm = [], trace = []\<rparr>"

section \<open>Example data\<close>

text \<open>
  Raw records of the remote table as the API delivers them, one of them with an empty
  title, the products they are transformed to, records of the local file, and the
  responses and environments that carry them.
\<close>

definition redMug :: jsval where
  "redMug = JObj
     [(''id'', JNum (Fin 1)), (''title'', JStr ''Red Mug''),
      (''description'', JStr ''A red mug''), (''price'', JStr ''10,50''),
      (''gallery'', JArr [JObj [(''url'', JStr ''red.png'')]]),
      (''Public'', JBool True), (''order'', JNum (Fin 2))]"


definition untitled :: jsval where
  "untitled = JObj
     [(''id'', JNum (Fin 3)), (''title'', JStr []),
      (''description'', JStr ''No title''), (''price'', JStr ''5.00''),
      (''Public'', JBool True)]"

definition redMugProduct :: jsval where
  "redMugProduct = JObj
     [(''id'', JNum (Fin 1)), (''title'', JStr ''Red Mug''), (''subtitle'', JNull),
      (''description'', JStr ''A red mug''), (''gallery'', JArr [JStr ''red.png'']),
      (''price'', JNum (Fin (21 / 2))), (''promotionalPrice'', JNull),
      (''public'', JBool True), (''rating'', JNull), (''order'', JNum (Fin 2))]"

definition blueMugProduct :: jsval where
  "blueMugProduct = JObj
     [(''id'', JNum (Fin 2)), (''title'', JStr ''Blue Mug''), (''subtitle'', JNull),
      (''description'', JStr ''A blue mug''), (''gallery'', JArr []),
      (''price'', JNum (Fin 12)), (''promotionalPrice'', JNull),
      (''public'', JBool True), (''rating'', JNull), (''order'', JNum (Fin 1))]"

definition okResponse :: "jsval \<Rightarrow> fetch_outcome" where
  "okResponse data = Response \<lparr>status = 200, statusText = ''OK'', body = Inr data\<rparr>"

definition statusResponse :: "nat \<Rightarrow> fetch_outcome" where
  "statusResponse code = Response \<lparr>status = code, statusText = [], body = Inl ''no body''\<rparr>"

definition resultsOf :: "jsval list \<Rightarrow> fetch_outcome" where
  "resultsOf rs = okResponse (JObj [(''results'', JArr rs)])"



definition emptyFileRecord :: jsval where
  \<comment> \<open>a record of the local file with empty texts and a price of zero\<close>
  "emptyFileRecord = JObj
     [(''id'', JNum (Fin 1)), (''title'', JStr []), (''description'', JStr []),
      (''gallery'', JArr []), (''price'', JNum (Fin 0))]"

definition productsFile :: "jsval list \<Rightarrow> fetch_outcome" where
  "productsFile ps = okResponse (JObj [(''products'', JArr ps)])"

definition offline :: "fetch_outcome \<Rightarrow> env" where
  \<comment> \<open>the remote API is out of reach; the local file answers as given\<close>
  "offline f = \<lparr>apiService = True, connection = NetworkFailure ''Failed to fetch'',
                api = NetworkFailure ''Failed to fetch'', localFile = f\<rparr>"


definition numberedSubtitle :: jsval where
  \<comment> \<open>a record of the local file whose subtitle is a number\<close>
  "numberedSubtitle = JObj
     [(''id'', JNum (Fin 7)), (''title'', JStr ''Lamp''), (''subtitle'', JNum (Fin 5)),
      (''description'', JStr ''A desk lamp''), (''gallery'', JArr []),
      (''price'', JNum (Fin 30))]"

definition showing :: "jsval list \<Rightarrow> state" where
  \<comment> \<open>the controller after a load that stored these products\<close>
  "showing ps = initial\<lparr>products := ps, filteredProducts := ps\<rparr>"

section \<open>Notions of the specification\<close>








definition primarySucceeds :: "env \<Rightarrow> jsval list \<Rightarrow> bool" where
  \<comment> \<open>the try block of loadProducts runs to its end with these fetched products\<close>
  "primarySucceeds ev fetched =
     (apiService ev \<and> testConnection (connection ev) \<and>
      fetchProducts (api ev) = Inr fetched \<and> filter isDisplayable fetched \<noteq> [])"

definition primaryCalls :: "env \<Rightarrow> event list" where
  \<comment> \<open>the service calls of a try block of loadProducts that fails\<close>
  "primaryCalls ev =
     (if apiService ev
      then CallTestConnection #
             (if testConnection (connection ev) then [CallFetchProducts] else [])
      else [])"

definition primaryError :: "env \<Rightarrow> error" where
  \<comment> \<open>the error a failing try block of loadProducts throws\<close>
  "primaryError ev =
     (if \<not> apiService ev then ApiServiceUnavailable
      else if \<not> testConnection (connection ev) then CannotConnect
      else case fetchProducts (api ev) of
             Inl e \<Rightarrow> e
           | Inr fetched \<Rightarrow> if fetched = [] then NoPublicProducts else NoValidProducts)"

section \<open>Properties of the API service\<close>

lemma is_numberD: "is_number v \<Longrightarrow> \<exists>n. v = JNum n"
  by (cases v) simp_all

lemma is_stringD: "is_string v \<Longrightarrow> \<exists>s. v = JStr s"
  by (cases v) simp_all

lemma isArrayD: "isArray v \<Longrightarrow> \<exists>xs. v = JArr xs"
  by (cases v) simp_all

lemma isValidProduct_fields:
  assumes "isValidProduct v"
  shows "(\<exists>i. field v ''id'' = JNum i \<and> num_gt0 i) \<and>
     (\<exists>t. field v ''title'' = JStr t \<and> t \<noteq> []) \<and>
     (\<exists>d. field v ''description'' = JStr d \<and> d \<noteq> []) \<and>
     (\<exists>g. field v ''gallery'' = JArr g) \<and>
     (\<exists>p. field v ''price'' = JNum p \<and> num_gt0 p) \<and>
     field v ''public'' = JBool True"
proof (intro conjI)
  from assms obtain i where "field v ''id'' = JNum i" "js_gt0 (field v ''id'')"
    unfolding isValidProduct_def by (blast dest: is_numberD)
  then show "\<exists>i. field v ''id'' = JNum i \<and> num_gt0 i"
    by (simp add: js_gt0_def)
  from assms obtain t where "field v ''title'' = JStr t" "0 < str_length (field v ''title'')"
    unfolding isValidProduct_def by (blast dest: is_stringD)
  then show "\<exists>t. field v ''title'' = JStr t \<and> t \<noteq> []"
    by simp
  from assms obtain d where "field v ''description'' = JStr d"
      "0 < str_length (field v ''description'')"
    unfolding isValidProduct_def by (blast dest: is_stringD)
  then show "\<exists>d. field v ''description'' = JStr d \<and> d \<noteq> []"
    by simp
  from assms show "\<exists>g. field v ''gallery'' = JArr g"
    unfolding isValidProduct_def by (blast dest: isArrayD)
  from assms obtain p where "field v ''price'' = JNum p" "js_gt0 (field v ''price'')"
    unfolding isValidProduct_def by (blast dest: is_numberD)
  then show "\<exists>p. field v ''price'' = JNum p \<and> num_gt0 p"
    by (simp add: js_gt0_def)
  from assms show "field v ''public'' = JBool True"
    unfolding isValidProduct_def by blast
qed

lemma transformProduct_try_cases:
  "transformProduct_try raw = Inr v \<Longrightarrow> v = JNull \<or> isValidProduct v"
  unfolding transformProduct_try_def
  by (cases "getprop raw ''gallery''"; simp)
     (cases "if isArray (projr (getprop raw ''gallery''))
             then mapE gallery_url (elems (projr (getprop raw ''gallery''))) else Inr []";
      auto simp: Let_def split: if_splits)

lemma transformProduct_cases:
  "transformProduct raw = JNull \<or> isValidProduct (transformProduct raw)"
  unfolding transformProduct_def
  using transformProduct_try_cases[of raw]
  by (cases "transformProduct_try raw") auto

lemmas parse_eval =
  parseFloat_def parseFloat_str_def parse_signed_decimal_def parse_decimal_def
  parseInt_def parseInt_str_def trim_start_def trim_def is_space_def is_digit_def
  is_radix_digit_def nat_of_digits_def digit_val_def digit_table_def scale10_def
  rat_to_string_def digit_char_def

lemma transformProduct_redMug: "transformProduct redMug = redMugProduct"
  by (simp add: transformProduct_def transformProduct_try_def redMug_def redMugProduct_def
      gallery_url_def js_or_def parsePrice_def isValidProduct_def js_gt0_def
      order_key_def parse_eval)



lemma transformProduct_untitled: "transformProduct untitled = JNull"
  by (simp add: transformProduct_def transformProduct_try_def untitled_def
      gallery_url_def js_or_def parsePrice_def isValidProduct_def js_gt0_def
      order_key_def parse_eval)

text \<open>
  C7. For every raw record, transformProduct gives null or a record that meets every
  Product invariant: the id is a number above zero, title and description are
  non-empty strings, the gallery is an array, the price is a number above zero and
  public is true. So a record that fails one of them is answered by null. The function
  does not throw: an error raised inside its try block is answered by null as well.
\<close>

theorem transformProduct_null_or_valid:
  "(transformProduct raw = JNull \<or>
      ((\<exists>i. field (transformProduct raw) ''id'' = JNum i \<and> num_gt0 i) \<and>
       (\<exists>t. field (transformProduct raw) ''title'' = JStr t \<and> t \<noteq> []) \<and>
       (\<exists>d. field (transformProduct raw) ''description'' = JStr d \<and> d \<noteq> []) \<and>
       (\<exists>g. field (transformProduct raw) ''gallery'' = JArr g) \<and>
       (\<exists>p. field (transformProduct raw) ''price'' = JNum p \<and> num_gt0 p) \<and>
       field (transformProduct raw) ''public'' = JBool True)) \<and>
   (\<forall>e. transformProduct_try raw = Inl e \<longrightarrow> transformProduct raw = JNull) \<and>
   (\<forall>t. transformProduct_try raw = Inr t \<and> \<not> isValidProduct t \<longrightarrow>
          transformProduct raw = JNull)"
proof (intro conjI allI impI)
  show "transformProduct raw = JNull \<or>
      ((\<exists>i. field (transformProduct raw) ''id'' = JNum i \<and> num_gt0 i) \<and>
       (\<exists>t. field (transformProduct raw) ''title'' = JStr t \<and> t \<noteq> []) \<and>
       (\<exists>d. field (transformProduct raw) ''description'' = JStr d \<and> d \<noteq> []) \<and>
       (\<exists>g. field (transformProduct raw) ''gallery'' = JArr g) \<and>
       (\<exists>p. field (transformProduct raw) ''price'' = JNum p \<and> num_gt0 p) \<and>
       field (transformProduct raw) ''public'' = JBool True)"
    using transformProduct_cases[of raw] isValidProduct_fields[of "transformProduct raw"]
    by blast
next
  fix e assume "transformProduct_try raw = Inl e"
  then show "transformProduct raw = JNull"
    by (simp add: transformProduct_def)
next
  fix t assume "transformProduct_try raw = Inr t \<and> \<not> isValidProduct t"
  then show "transformProduct raw = JNull"
    using transformProduct_try_cases[of raw t] by (auto simp: transformProduct_def)
qed

theorem transformProduct_null_or_valid_witness:
  "transformProduct_try JNull = Inl (NullAccess ''gallery'') \<and>
   transformProduct JNull = JNull \<and>
   transformProduct untitled = JNull \<and>
   transformProduct redMug \<noteq> JNull \<and>
   field (transformProduct redMug) ''price'' = JNum (Fin (21 / 2)) \<and>
   field (transformProduct redMug) ''public'' = JBool True"
proof -
  have thrown: "transformProduct_try JNull = Inl (NullAccess ''gallery'')"
    by (simp add: transformProduct_try_def)
  have "transformProduct JNull = JNull"
    using transformProduct_null_or_valid[of JNull] thrown by blast
  moreover have "transformProduct redMug \<noteq> JNull"
    by (simp add: transformProduct_redMug redMugProduct_def)
  moreover have "field (transformProduct redMug) ''price'' = JNum (Fin (21 / 2))"
      "field (transformProduct redMug) ''public'' = JBool True"
    by (simp_all add: transformProduct_redMug redMugProduct_def)
  ultimately show ?thesis
    using thrown transformProduct_untitled by simp
qed

lemma transformProduct_not_public:
  assumes "\<not> truthy (field raw ''Public'')"
  shows "transformProduct raw = JNull"
proof (cases "transformProduct_try raw")
  case (Inl e)
  then show ?thesis by (simp add: transformProduct_def)
next
  case (Inr v)
  have "v = JNull"
  proof (rule ccontr)
    assume "v \<noteq> JNull"
    with Inr have valid: "isValidProduct v"
      using transformProduct_try_cases by blast
    from Inr \<open>v \<noteq> JNull\<close> have "field v ''public'' = JBool (truthy (field raw ''Public''))"
      unfolding transformProduct_try_def
      by (cases "getprop raw ''gallery''"; simp)
         (cases "if isArray (projr (getprop raw ''gallery''))
                 then mapE gallery_url (elems (projr (getprop raw ''gallery''))) else Inr []";
          auto simp: Let_def split: if_splits)
    with assms valid show False
      by (simp add: isValidProduct_def)
  qed
  with Inr show ?thesis by (simp add: transformProduct_def)
qed

lemma fetchProducts_results:
  assumes "ok r" and "body r = Inr data" and "getprop data ''results'' = Inr (JArr rs)"
  shows "fetchProducts (Response r) = Inr (map transformProduct rs)"
  using assms by (simp add: fetchProducts_def fetchProducts_try_def)

lemma isDisplayable_not_null: "isDisplayable v \<Longrightarrow> v \<noteq> JNull"
  by (auto simp: isDisplayable_def)

text \<open>
  C2, as the claim states it, fails: fetchProducts maps transformProduct over the
  results and returns the array as it is, so the record with the empty title is not
  left out. Its place in the returned array holds null.
\<close>

theorem fetchProducts_keeps_null_counterexample:
  "fetchProducts (resultsOf [untitled, redMug]) = Inr [JNull, redMugProduct]"
  by (simp add: fetchProducts_def fetchProducts_try_def resultsOf_def okResponse_def ok_def
      transformProduct_untitled transformProduct_redMug)

text \<open>
  C2, amended. For every successful response whose document has a results array,
  fetchProducts returns one entry per raw record, in the order of the records: each
  entry is null or a record that isValidProduct accepts, so one bad record does not
  abort the batch. The nulls leave the sequence only in the filter of loadProducts,
  which keeps no null.
\<close>

theorem fetchProducts_maps_every_record:
  assumes "ok r" and "body r = Inr data" and "getprop data ''results'' = Inr (JArr rs)"
  shows "fetchProducts (Response r) = Inr (map transformProduct rs) \<and>
         (\<forall>raw \<in> set rs. transformProduct raw = JNull \<or> isValidProduct (transformProduct raw)) \<and>
         JNull \<notin> set (filter isDisplayable (map transformProduct rs))"
  using fetchProducts_results[OF assms] transformProduct_cases isDisplayable_not_null
  by auto

theorem fetchProducts_maps_every_record_witness:
  "fetchProducts (resultsOf [untitled, redMug]) = Inr [transformProduct untitled, transformProduct redMug] \<and>
   transformProduct untitled = JNull \<and>
   isValidProduct (transformProduct redMug) \<and>
   filter isDisplayable [transformProduct untitled, transformProduct redMug] = [redMugProduct]"
proof -
  let ?r = "\<lparr>status = 200, statusText = ''OK'',
             body = Inr (JObj [(''results'', JArr [untitled, redMug])])\<rparr>"
  have "ok ?r" by (simp add: ok_def)
  moreover have "body ?r = Inr (JObj [(''results'', JArr [untitled, redMug])])" by simp
  moreover have "getprop (JObj [(''results'', JArr [untitled, redMug])]) ''results''
                 = Inr (JArr [untitled, redMug])" by simp
  ultimately have
    "fetchProducts (Response ?r) = Inr (map transformProduct [untitled, redMug]) \<and>
     (\<forall>raw \<in> set [untitled, redMug].
        transformProduct raw = JNull \<or> isValidProduct (transformProduct raw)) \<and>
     JNull \<notin> set (filter isDisplayable (map transformProduct [untitled, redMug]))"
    by (rule fetchProducts_maps_every_record)
  moreover have "transformProduct redMug \<noteq> JNull"
    by (simp add: transformProduct_redMug redMugProduct_def)
  moreover have "isDisplayable redMugProduct"
    by (simp add: isDisplayable_def redMugProduct_def js_gt0_def)
  moreover have "\<not> isDisplayable JNull"
    by (simp add: isDisplayable_def)
  ultimately show ?thesis
    by (simp add: resultsOf_def okResponse_def transformProduct_untitled transformProduct_redMug)
qed

text \<open>
  C6, as the claim states it, fails: the catch block of fetchProductById returns null
  for whatever the try block throws. A response with status 500, a network failure
  and a document that is not JSON all give null; nothing reaches the caller as an
  error.
\<close>

theorem fetchProductById_swallows_counterexample:
  "fetchProductById (statusResponse 500) = Inr JNull \<and>
   fetchProductById_try (statusResponse 500) = Inl (HttpError 500 []) \<and>
   fetchProductById (NetworkFailure ''Failed to fetch'') = Inr JNull \<and>
   fetchProductById (Response \<lparr>status = 200, statusText = ''OK'',
                               body = Inl ''Unexpected token''\<rparr>) = Inr JNull"
  by (simp add: fetchProductById_def fetchProductById_try_def statusResponse_def ok_def)

text \<open>
  C6, amended. fetchProductById always returns: null or a valid, public product. It
  returns null when the status is 404, when the record is not public, and also for
  every error thrown in its try block (another HTTP error status, a JSON syntax error,
  a network failure), which it logs and does not propagate.
\<close>

theorem fetchProductById_null_on_every_failure:
  "(\<exists>v. fetchProductById out = Inr v \<and> (v = JNull \<or> isValidProduct v)) \<and>
   (\<forall>r. out = Response r \<and> status r = 404 \<longrightarrow> fetchProductById out = Inr JNull) \<and>
   (\<forall>r raw. out = Response r \<and> ok r \<and> body r = Inr raw \<and> \<not> truthy (field raw ''Public'')
       \<longrightarrow> fetchProductById out = Inr JNull) \<and>
   (\<forall>e. fetchProductById_try out = Inl e \<longrightarrow> fetchProductById out = Inr JNull)"
proof (intro conjI allI impI)
  show "\<exists>v. fetchProductById out = Inr v \<and> (v = JNull \<or> isValidProduct v)"
  proof (cases "fetchProductById_try out")
    case (Inl e)
    then show ?thesis by (simp add: fetchProductById_def)
  next
    case (Inr v)
    then have "v = JNull \<or> isValidProduct v"
      using transformProduct_cases
      by (auto simp: fetchProductById_try_def Let_def
               split: fetch_outcome.splits if_splits sum.splits)
    with Inr show ?thesis by (simp add: fetchProductById_def)
  qed
next
  fix r assume "out = Response r \<and> status r = 404"
  then show "fetchProductById out = Inr JNull"
    by (simp add: fetchProductById_def fetchProductById_try_def ok_def)
next
  fix r raw
  assume "out = Response r \<and> ok r \<and> body r = Inr raw \<and> \<not> truthy (field raw ''Public'')"
  then show "fetchProductById out = Inr JNull"
    by (simp add: fetchProductById_def fetchProductById_try_def transformProduct_not_public)
next
  fix e assume "fetchProductById_try out = Inl e"
  then show "fetchProductById out = Inr JNull"
    by (simp add: fetchProductById_def)
qed

theorem fetchProductById_null_on_every_failure_witness:
  "fetchProductById (statusResponse 404) = Inr JNull \<and>
   fetchProductById (statusResponse 503) = Inr JNull \<and>
   fetchProductById (okResponse redMug) = Inr redMugProduct"
proof -
  have "statusResponse 404 = Response \<lparr>status = 404, statusText = [], body = Inl ''no body''\<rparr>
        \<and> status \<lparr>status = 404, statusText = [], body = Inl ''no body''\<rparr> = 404"
    by (simp add: statusResponse_def)
  then have "fetchProductById (statusResponse 404) = Inr JNull"
    using fetchProductById_null_on_every_failure[of "statusResponse 404"] by blast
  moreover have "fetchProductById_try (statusResponse 503) = Inl (HttpError 503 [])"
    by (simp add: fetchProductById_try_def statusResponse_def ok_def)
  then have "fetchProductById (statusResponse 503) = Inr JNull"
    using fetchProductById_null_on_every_failure[of "statusResponse 503"] by blast
  moreover have "fetchProductById (okResponse redMug) = Inr redMugProduct"
    by (simp add: fetchProductById_def fetchProductById_try_def okResponse_def ok_def
        transformProduct_redMug) (simp add: redMugProduct_def)
  ultimately show ?thesis by simp
qed







subsection \<open>Prices\<close>

lemma not_digit_sep [simp]: "\<not> is_digit CHR ''.''" "\<not> is_digit CHR '',''"
  by (simp_all add: is_digit_def)

lemma not_space_sep [simp]: "\<not> is_space CHR ''.''" "\<not> is_space CHR '',''"
  by (simp_all add: is_space_def)









section \<open>Properties of the catalog controller\<close>

subsection \<open>The two paths of a load\<close>

lemma emit_fields [simp]:
  "trace (emit e st) = trace st @ [e]"
  "products (emit e st) = products st"
  "filteredProducts (emit e st) = filteredProducts st"
  "isLoading (emit e st) = isLoading st"
  "currentSearchTerm (emit e st) = currentSearchTerm st"
  by (simp_all add: emit_def)

lemma loadProducts_try_cases:
  "loadProducts_try ev st =
     (if \<exists>fetched. primarySucceeds ev fetched
      then (None,
            updateResultsInfo (renderProducts
              ((emit CallFetchProducts (emit CallTestConnection st))
                 \<lparr>products := js_sort compareOrder
                     (filter isDisplayable (projr (fetchProducts (api ev)))),
                  filteredProducts := js_sort compareOrder
                     (filter isDisplayable (projr (fetchProducts (api ev))))\<rparr>)))
      else if \<not> apiService ev then (Some ApiServiceUnavailable, st)
      else if \<not> testConnection (connection ev)
      then (Some CannotConnect, emit CallTestConnection st)
      else (Some (case fetchProducts (api ev) of
                    Inl e \<Rightarrow> e
                  | Inr fetched \<Rightarrow> if fetched = [] then NoPublicProducts else NoValidProducts),
            emit CallFetchProducts (emit CallTestConnection st)))"
  by (cases "fetchProducts (api ev)")
     (auto simp: loadProducts_try_def primarySucceeds_def Let_def)


lemma loadProductsFromJSON_cases:
  "loadProductsFromJSON ev apiError st =
     (case readProductsFile (localFile ev) of
        Inr ps \<Rightarrow>
          st\<lparr>products := ps, filteredProducts := ps,
             trace := trace st @ [FetchFile, RenderProducts ps, UpdateResultsInfo,
                                  ShowApiWarning apiError]\<rparr>
      | Inl jsonError \<Rightarrow>
          st\<lparr>trace := trace st @ [FetchFile, ShowError apiError jsonError]\<rparr>)"
  by (cases "readProductsFile (localFile ev)")
     (simp_all add: loadProductsFromJSON_def emit_def renderProducts_def updateResultsInfo_def)


lemma loadProducts_fallback:
  assumes "\<not> isLoading st" and "\<not> (\<exists>fetched. primarySucceeds ev fetched)"
  shows "loadProducts ev st =
           (case readProductsFile (localFile ev) of
              Inr ps \<Rightarrow>
                st\<lparr>products := ps, filteredProducts := ps, isLoading := False,
                   trace := trace st @ ShowLoading # primaryCalls ev @
                     [FetchFile, RenderProducts ps, UpdateResultsInfo,
                      ShowApiWarning (primaryError ev)]\<rparr>
            | Inl jsonError \<Rightarrow>
                st\<lparr>isLoading := False,
                   trace := trace st @ ShowLoading # primaryCalls ev @
                     [FetchFile, ShowError (primaryError ev) jsonError]\<rparr>)"
  using assms
  by (cases "readProductsFile (localFile ev)")
     (simp_all add: loadProducts_def loadProducts_try_cases emit_def loadProductsFromJSON_cases
        primaryCalls_def primaryError_def)





subsection \<open>Sorting by the order field\<close>









subsection \<open>The example loads\<close>




subsection \<open>Loading\<close>

text \<open>
  C8. In a load that runs, with the API service present, whose connectivity check
  returns false: the loader shows the loading state, calls testConnection, and goes on
  to fetch the local file (with CannotConnect as the API error); fetchProducts is not
  called anywhere in that load.
\<close>

theorem loadProducts_connection_false:
  assumes "\<not> isLoading st" and "apiService ev" and "\<not> testConnection (connection ev)"
  shows "trace (loadProducts ev st) =
           trace st @ [ShowLoading, CallTestConnection, FetchFile] @
             (case readProductsFile (localFile ev) of
                Inr ps \<Rightarrow> [RenderProducts ps, UpdateResultsInfo, ShowApiWarning CannotConnect]
              | Inl jsonError \<Rightarrow> [ShowError CannotConnect jsonError]) \<and>
         CallFetchProducts \<notin> set (drop (length (trace st)) (trace (loadProducts ev st))) \<and>
         FetchFile \<in> set (drop (length (trace st)) (trace (loadProducts ev st)))"
proof -
  from assms(3) have "\<not> (\<exists>fetched. primarySucceeds ev fetched)"
    by (simp add: primarySucceeds_def)
  from loadProducts_fallback[OF assms(1) this] assms(2,3)
  show ?thesis
    by (cases "readProductsFile (localFile ev)")
       (simp_all add: primaryCalls_def primaryError_def)
qed

theorem loadProducts_connection_false_witness:
  "\<not> isLoading initial \<and>
   apiService (offline (productsFile [emptyFileRecord])) \<and>
   \<not> testConnection (connection (offline (productsFile [emptyFileRecord]))) \<and>
   trace (loadProducts (offline (productsFile [emptyFileRecord])) initial) =
     [ShowLoading, CallTestConnection, FetchFile, RenderProducts [emptyFileRecord],
      UpdateResultsInfo, ShowApiWarning CannotConnect]"
proof -
  let ?ev = "offline (productsFile [emptyFileRecord])"
  have a: "\<not> isLoading initial" by (simp add: initial_def)
  have b: "apiService ?ev" by (simp add: offline_def)
  have c: "\<not> testConnection (connection ?ev)" by (simp add: offline_def testConnection_def)
  have d: "readProductsFile (localFile ?ev) = Inr [emptyFileRecord]"
    by (simp add: offline_def productsFile_def okResponse_def readProductsFile_def ok_def
        validateProductsData_def emptyFileRecord_def)
  have e: "trace initial = []" by (simp add: initial_def)
  show ?thesis
    using loadProducts_connection_false[OF a b c] a b c d e by simp
qed




subsection \<open>What a load stores\<close>




subsection \<open>The order of the stored list\<close>






subsection \<open>Searching\<close>

lemma afterFilter_fields [simp]:
  "products (afterFilter st) = products st"
  "filteredProducts (afterFilter st) = filteredProducts st"
  "isLoading (afterFilter st) = isLoading st"
  "currentSearchTerm (afterFilter st) = currentSearchTerm st"
  by (simp_all add: afterFilter_def renderProducts_def updateResultsInfo_def Let_def)











text \<open>
  C9. handleSearch leaves the full product list as it was, for every list and every
  search term, also when the filter throws: only the search term and the filtered
  list are assigned.
\<close>

theorem handleSearch_keeps_products:
  "products (snd (handleSearch searchTerm st)) = products st"
  by (cases "filterE (matchesSearch (toLowerCase (trim searchTerm))) (products st)")
     (simp_all add: handleSearch_def Let_def)

theorem handleSearch_keeps_products_witness:
  "fst (handleSearch ''desk'' (showing [numberedSubtitle])) = Some (NotAFunction ''toLowerCase'') \<and>
   products (snd (handleSearch ''desk'' (showing [numberedSubtitle]))) = [numberedSubtitle] \<and>
   products (snd (handleSearch ''green'' (showing [redMugProduct, blueMugProduct])))
     = [redMugProduct, blueMugProduct]"
proof -
  have "fst (handleSearch ''desk'' (showing [numberedSubtitle]))
          = Some (NotAFunction ''toLowerCase'')"
    by (simp add: handleSearch_def showing_def matchesSearch_def numberedSubtitle_def
        toLowerCase_def lower_char_def trim_def is_space_def)
  then show ?thesis
    using handleSearch_keeps_products[of "''desk''" "showing [numberedSubtitle]"]
      handleSearch_keeps_products[of "''green''" "showing [redMugProduct, blueMugProduct]"]
    by (simp add: showing_def)
qed

end
